theory Spec2Isabelle
  imports Main "HOL-Library.Word"
begin

section \<open>Strings of the Go library\<close>

text \<open>
  A Go string is a sequence of bytes, as an Isabelle \<open>string\<close> is. The functions of
  package \<open>strings\<close> that \<open>ast.go\<close> calls are written out here for the arguments the
  program passes them: a one-byte separator for \<open>SplitN\<close>, any strings for
  \<open>HasPrefix\<close> and \<open>HasSuffix\<close>.
\<close>

definition HasPrefix :: "string \<Rightarrow> string \<Rightarrow> bool" where
  "HasPrefix s p = (take (length p) s = p)"

definition HasSuffix :: "string \<Rightarrow> string \<Rightarrow> bool" where
  "HasSuffix s p = (length p \<le> length s \<and> drop (length s - length p) s = p)"

text \<open>
  \<open>strings.SplitN(s, sep, n)\<close> for a separator of one byte and \<open>n \<ge> 0\<close>: at most \<open>n\<close>
  pieces, the last one the unsplit rest; no piece at all for \<open>n = 0\<close>.
\<close>

fun SplitN :: "string \<Rightarrow> char \<Rightarrow> nat \<Rightarrow> string list" where
  "SplitN s sep 0 = []"
| "SplitN s sep (Suc 0) = [s]"
| "SplitN s sep (Suc (Suc n)) =
     (if sep \<in> set s
      then takeWhile (\<lambda>c. c \<noteq> sep) s # SplitN (tl (dropWhile (\<lambda>c. c \<noteq> sep) s)) sep (Suc n)
      else [s])"

text \<open>
  \<open>strings.Fields\<close> splits around runs of white space. Which code points are white space
  is the Unicode table of the Go library, so the functions below take the splitting
  function as the parameter \<open>flds\<close>. \<open>Fields_ascii\<close> is that function on strings whose
  white space is ASCII (tab, line feed, vertical tab, form feed, carriage return, space);
  the concrete examples use it.
\<close>

definition asciiSpace :: "char \<Rightarrow> bool" where
  "asciiSpace c = (c \<in> set [CHR 0x09, CHR 0x0A, CHR 0x0B, CHR 0x0C, CHR 0x0D, CHR '' ''])"

fun Fields_scan :: "string \<Rightarrow> string \<Rightarrow> string list" where
  "Fields_scan [] cur = (if cur = [] then [] else [cur])"
| "Fields_scan (c # s) cur =
     (if asciiSpace c
      then (if cur = [] then Fields_scan s [] else cur # Fields_scan s [])
      else Fields_scan s (cur @ [c]))"

definition Fields_ascii :: "string \<Rightarrow> string list" where
  "Fields_ascii s = Fields_scan s []"

section \<open>Feed metadata: \<open>Comment\<close> and \<open>Comments\<close>\<close>

text \<open>
  \<open>Comments\<close> is a slice of pointers to \<open>Comment\<close>; nothing in the package writes to a
  \<open>Comment\<close> after it is built, so an entry is modelled by the value it points to.
  \<open>Twter\<close> is the struct of package \<open>types\<close> with its string fields (the map \<open>Follow\<close>
  is left nil by every constructor in \<open>ast.go\<close> and is never read there).
\<close>

record Comment =
  c_comment :: string
  c_key :: string
  c_value :: string

type_synonym Comments = "Comment list"

record Twter =
  Nick :: string
  URL :: string
  Avatar :: string
  Tagline :: string

definition Twter_zero :: Twter where
  "Twter_zero = \<lparr>Nick = [], URL = [], Avatar = [], Tagline = []\<rparr>"

datatype panic = IndexOutOfRange | NilPointer

text \<open>
  Go's \<open>int\<close> is 64 bits wide on the platforms the program is built for: negation wraps
  around at \<open>- 2 ^ 63\<close>.
\<close>

definition wrap64 :: "int \<Rightarrow> int" where
  "wrap64 x = (x + 2 ^ 63) mod 2 ^ 64 - 2 ^ 63"

text \<open>
  One iteration of the loop of \<open>GetN\<close>, at the entry \<open>c = lis[i]\<close> with the indices
  \<open>idx\<close> of the matches seen so far: \<open>Inl c\<close> is a return from inside the loop,
  \<open>Inr idx'\<close> goes on to the next entry with the indices \<open>idx'\<close>.
\<close>

definition GetN_step :: "Comment \<Rightarrow> string \<Rightarrow> int \<Rightarrow> nat \<Rightarrow> nat list \<Rightarrow> Comment + nat list" where
  "GetN_step c k n i idx =
     (if n = 0 \<and> k = c_key c then Inl c
      else
        (let idx' = (if k = c_key c then idx @ [i] else idx)
         in if n = int (length idx') \<and> k = c_key c then Inl c
            else Inr idx'))"

text \<open>
  The loop over the entries still to visit; \<open>Inr idx\<close> is the end of the scan.
\<close>

fun GetN_scan :: "Comment list \<Rightarrow> string \<Rightarrow> int \<Rightarrow> nat \<Rightarrow> nat list \<Rightarrow> Comment + nat list" where
  "GetN_scan [] k n i idx = Inr idx"
| "GetN_scan (c # rest) k n i idx =
     (case GetN_step c k n i idx of
        Inl r \<Rightarrow> Inl r
      | Inr idx' \<Rightarrow> GetN_scan rest k n (Suc i) idx')"

text \<open>
  \<open>GetN\<close> returns \<open>(lis[i], true)\<close> as \<open>Inr (Some c)\<close> and \<open>(nil, false)\<close> as \<open>Inr None\<close>.
  After the scan, \<open>idx[len(idx)+n]\<close> is an indexed read that panics out of range.
\<close>

definition GetN :: "Comments \<Rightarrow> string \<Rightarrow> int \<Rightarrow> panic + Comment option" where
  "GetN lis k n =
     (case GetN_scan lis k n 0 [] of
        Inl c \<Rightarrow> Inr (Some c)
      | Inr idx \<Rightarrow>
          (if n < 0 \<and> wrap64 (- n) < int (length idx) then
             (let j = int (length idx) + n
              in if 0 \<le> j \<and> j < int (length idx) then Inr (Some (lis ! (idx ! nat j)))
                 else Inl IndexOutOfRange)
           else Inr None))"

text \<open>The loop of \<open>GetAll\<close>, with the slice \<open>nlis\<close> built so far.\<close>

fun GetAll_loop :: "Comments \<Rightarrow> string \<Rightarrow> Comment list \<Rightarrow> Comment list" where
  "GetAll_loop [] p nlis = nlis"
| "GetAll_loop (c # lis) p nlis =
     (if c_key c = [] then GetAll_loop lis p nlis
      else if HasPrefix (c_key c) p then GetAll_loop lis p (nlis @ [c])
      else GetAll_loop lis p nlis)"

definition GetAll :: "Comments \<Rightarrow> string \<Rightarrow> Comment list" where
  "GetAll lis p = GetAll_loop lis p []"

text \<open>The loop of \<open>Followers\<close> over the entries \<open>GetAll\<close> found.\<close>

fun Followers_loop :: "(string \<Rightarrow> string list) \<Rightarrow> Comment list \<Rightarrow> Twter list \<Rightarrow> Twter list" where
  "Followers_loop flds [] nlis = nlis"
| "Followers_loop flds (c # flis) nlis =
     (let sp = flds (c_value c)
      in if length sp < 2 then Followers_loop flds flis nlis
         else Followers_loop flds flis
                (nlis @ [Twter_zero\<lparr>Nick := sp ! 0, URL := sp ! 1\<rparr>]))"

definition Followers :: "(string \<Rightarrow> string list) \<Rightarrow> Comments \<Rightarrow> Twter list" where
  "Followers flds lis = Followers_loop flds (GetAll lis ''follow'') []"

section \<open>The elements of a Twt\<close>

text \<open>
  \<open>ExpandLinks\<close> and \<open>FormatText\<close> write to the fields of \<open>Mention\<close> and \<open>Tag\<close> structs
  through the pointers a Twt holds, so these two structs live in an explicit store: a
  pointer is an index into the list of the structs allocated so far, and allocation
  appends to that list. \<open>Subject\<close>, \<open>Text\<close>, \<open>Link\<close>, \<open>Code\<close> and \<open>DateTime\<close> structs are
  never written after they are built (the package has no assignment to their fields), so a
  pointer to one of them is modelled by the struct it points to; a \<open>Subject\<close> holds the
  pointer to its \<open>Tag\<close>. An \<open>option\<close> is a pointer that may be nil.

  Of a \<open>*url.URL\<close> the program reads \<open>Hostname()\<close> and \<open>Path\<close> only.
\<close>

type_synonym addr = nat

type_synonym error = string

record URL =
  u_Hostname :: string
  u_Path :: string

record Mention =
  m_lit :: string
  m_name :: string
  m_domain :: string
  m_target :: string
  m_url :: "URL option"
  m_err :: "error option"

record Tag =
  t_lit :: string
  t_tag :: string
  t_target :: string
  t_url :: "URL option"
  t_err :: "error option"

record Subject =
  s_subject :: string
  s_tag :: "addr option"

record Text =
  x_lit :: string

type_synonym LinkType = int

definition LinkStandard :: LinkType where "LinkStandard = 1"
definition LinkMedia :: LinkType where "LinkMedia = 2"
definition LinkPlain :: LinkType where "LinkPlain = 3"
definition LinkNaked :: LinkType where "LinkNaked = 4"

record Link =
  linkType :: LinkType
  l_text :: string
  l_target :: string

type_synonym CodeType = int

definition CodeInline :: CodeType where "CodeInline = 1"
definition CodeBlock :: CodeType where "CodeBlock = 2"

record Code =
  codeType :: CodeType
  k_lit :: string

text \<open>
  A value of the interface \<open>Elem\<close>: the nil interface, or a pointer of one of the seven
  element types (a typed nil pointer is \<open>None\<close>). \<open>LineSeparator\<close> points to an empty
  struct and is never nil.
\<close>

datatype Elem =
    nil_Elem
  | MentionP "addr option"
  | TagP "addr option"
  | SubjectP "Subject option"
  | TextP "Text option"
  | LinkP "Link option"
  | CodeP "Code option"
  | LineSeparator

record heap =
  mentionH :: "Mention list"
  tagH :: "Tag list"

text \<open>
  The library functions the program calls: \<open>url.Parse\<close>, \<open>blake2b.Sum256\<close>,
  \<open>time.Time.Format(time.RFC3339)\<close> and the zero \<open>time.Time\<close>. They are parameters of
  the model. The result of \<open>Sum256\<close> has the Go type \<open>[32]byte\<close>.
\<close>

typedef sum256 = "{bs :: 8 word list. length bs = 32}"
  by (rule exI [of _ "replicate 32 0"]) simp

record 'tm Extern =
  url_Parse :: "string \<Rightarrow> error + URL"
  blake2b_Sum256 :: "string \<Rightarrow> sum256"
  Format_RFC3339 :: "'tm \<Rightarrow> string"
  zero_Time :: 'tm

text \<open>The interfaces \<open>types.FmtOpts\<close> and \<open>types.FeedLookup\<close>, as records of functions.\<close>

record FmtOpts =
  LocalURL :: "URL option"
  IsLocalURL :: "string \<Rightarrow> bool"
  UserURL :: "string \<Rightarrow> string"
  ExternalURL :: "string \<Rightarrow> string \<Rightarrow> string"
  URLForTag :: "string \<Rightarrow> string"
  URLForUser :: "string \<Rightarrow> string"

type_synonym FeedLookup = "string \<Rightarrow> Twter option"

subsection \<open>Literals and renderers of the element types\<close>

definition lineSep :: string where
  "lineSep = [CHR 0xE2, CHR 0x80, CHR 0xA8]"

text \<open>\<open>strings.ReplaceAll(s, "\u2028", "\n")\<close>.\<close>

fun ReplaceAll_lineSep :: "string \<Rightarrow> string" where
  "ReplaceAll_lineSep (a # b # c # s) =
     (if [a, b, c] = [CHR 0xE2, CHR 0x80, CHR 0xA8] then CHR 0x0A # ReplaceAll_lineSep s
      else a # ReplaceAll_lineSep (b # c # s))"
| "ReplaceAll_lineSep s = s"

definition Mention_FormatCompact :: "Mention \<Rightarrow> string" where
  "Mention_FormatCompact n =
     (if m_name n = [] \<and> m_target n \<noteq> [] then ''@<'' @ m_target n @ ''>''
      else ''@'' @ m_name n)"

definition Mention_FormatText :: "Mention \<Rightarrow> string" where
  "Mention_FormatText n =
     (if m_name n \<noteq> [] \<and> m_target n = [] then ''@'' @ m_name n
      else if m_name n = [] \<and> m_target n \<noteq> [] then ''@<'' @ m_target n @ ''>''
      else if m_name n \<noteq> [] \<and> m_target n \<noteq> [] then ''@<'' @ m_name n @ '' '' @ m_target n @ ''>''
      else [])"

definition Mention_FormatMarkdown :: "Mention \<Rightarrow> string" where
  "Mention_FormatMarkdown n =
     (if m_name n \<noteq> [] \<and> m_target n = [] then ''@'' @ m_name n
      else if m_name n = [] \<and> m_target n \<noteq> [] then ''<'' @ m_target n @ ''>''
      else if m_name n \<noteq> [] \<and> m_target n \<noteq> []
        then ''[@'' @ m_name n @ ''](''  @ m_target n @ ''#'' @ m_name n @ '')''
      else [])"

definition Mention_FormatHTML :: "Mention \<Rightarrow> string" where
  "Mention_FormatHTML n =
     (if m_target n = [] then
        ''@'' @ m_name n @ (if m_domain n \<noteq> [] then ''<em>@'' @ m_name n @ ''</em>'' else [])
      else
        ''<a href='' @ [CHR 0x22] @ m_target n @ [CHR 0x22] @ ''>@'' @ m_name n
        @ (if m_domain n \<noteq> [] then ''<em>@'' @ m_domain n @ ''</em>'' else [])
        @ ''</a>'')"

definition Tag_FormatCompact :: "Tag \<Rightarrow> string" where
  "Tag_FormatCompact n = ''#'' @ t_tag n"

definition Tag_FormatText :: "Tag \<Rightarrow> string" where
  "Tag_FormatText n =
     (if t_target n = [] then Tag_FormatCompact n
      else if t_tag n = [] then ''#<'' @ t_target n @ ''>''
      else ''#<'' @ t_tag n @ '' '' @ t_target n @ ''>'')"

definition Tag_FormatHTML :: "Tag \<Rightarrow> string" where
  "Tag_FormatHTML n =
     (if t_target n = [] then Tag_FormatCompact n
      else ''<a href='' @ [CHR 0x22] @ t_target n @ [CHR 0x22] @ ''>#'' @ t_tag n @ ''</a>'')"

text \<open>
  \<open>Tag.URL()\<close> parses the target once and keeps the result in the struct: the call writes
  to the store. It returns the pair \<open>(url, err)\<close>.
\<close>

definition Tag_URL :: "'tm Extern \<Rightarrow> addr \<Rightarrow> heap \<Rightarrow> (URL option \<times> error option) \<times> heap" where
  "Tag_URL ext a h =
     (let n = tagH h ! a in
      if t_url n = None \<and> t_err n = None then
        (case url_Parse ext (t_target n) of
           Inl e \<Rightarrow> ((None, Some e), h\<lparr>tagH := (tagH h)[a := n\<lparr>t_url := None, t_err := Some e\<rparr>]\<rparr>)
         | Inr u \<Rightarrow> ((Some u, None), h\<lparr>tagH := (tagH h)[a := n\<lparr>t_url := Some u, t_err := None\<rparr>]\<rparr>))
      else ((t_url n, t_err n), h))"

text \<open>
  The renderers that write to an \<open>io.Writer\<close> return the text written, or \<open>None\<close> when the
  call panics. \<open>Tag.FormatMarkdown\<close> calls \<open>Hostname()\<close> on the URL that \<open>URL()\<close> returned,
  which is nil when the target did not parse.
\<close>

definition Tag_FormatMarkdown :: "'tm Extern \<Rightarrow> addr \<Rightarrow> heap \<Rightarrow> string option \<times> heap" where
  "Tag_FormatMarkdown ext a h =
     (let n = tagH h ! a in
      if t_target n = [] then (Some (Tag_FormatCompact n), h)
      else if t_tag n = [] then
        (case Tag_URL ext a h of
           ((None, e), h') \<Rightarrow> (None, h')
         | ((Some u, e), h') \<Rightarrow>
             (Some (''['' @ u_Hostname u @ u_Path u @ ''](''  @ t_target n @ '')''), h'))
      else (Some (''[#'' @ t_tag n @ ''](''  @ t_target n @ '')''), h))"

definition Subject_Literal :: "heap \<Rightarrow> Subject \<Rightarrow> string" where
  "Subject_Literal h n =
     (case s_tag n of
        Some a \<Rightarrow> ''('' @ t_lit (tagH h ! a) @ '')''
      | None \<Rightarrow> ''('' @ s_subject n @ '')'')"

definition Subject_Text :: "heap \<Rightarrow> Subject \<Rightarrow> string" where
  "Subject_Text h n =
     (case s_tag n of
        None \<Rightarrow> s_subject n
      | Some a \<Rightarrow> t_lit (tagH h ! a))"

definition Subject_FormatText :: "heap \<Rightarrow> Subject \<Rightarrow> string" where
  "Subject_FormatText h n =
     ''('' @ (case s_tag n of None \<Rightarrow> s_subject n | Some a \<Rightarrow> Tag_FormatCompact (tagH h ! a)) @ '')''"

definition Subject_FormatHTML :: "heap \<Rightarrow> Subject \<Rightarrow> string" where
  "Subject_FormatHTML h n =
     ''('' @ (case s_tag n of None \<Rightarrow> s_subject n | Some a \<Rightarrow> Tag_FormatHTML (tagH h ! a)) @ '')''"

definition Subject_FormatMarkdown :: "'tm Extern \<Rightarrow> Subject \<Rightarrow> heap \<Rightarrow> string option \<times> heap" where
  "Subject_FormatMarkdown ext n h =
     (case s_tag n of
        None \<Rightarrow> (Some (''('' @ s_subject n @ '')''), h)
      | Some a \<Rightarrow>
          (case Tag_FormatMarkdown ext a h of
             (None, h') \<Rightarrow> (None, h')
           | (Some s, h') \<Rightarrow> (Some (''('' @ s @ '')''), h')))"

definition Link_Literal :: "Link \<Rightarrow> string" where
  "Link_Literal n =
     (if linkType n = LinkNaked then l_target n
      else if linkType n = LinkPlain then ''<'' @ l_target n @ ''>''
      else if linkType n = LinkMedia then ''!['' @ l_text n @ ''](''  @ l_target n @ '')''
      else ''['' @ l_text n @ ''](''  @ l_target n @ '')'')"

definition Code_Literal :: "Code \<Rightarrow> string" where
  "Code_Literal n =
     (if codeType n = CodeBlock then ''```'' @ k_lit n @ ''```''
      else ''`'' @ k_lit n @ ''`'')"

definition Code_String :: "Code \<Rightarrow> string" where
  "Code_String n = ReplaceAll_lineSep (Code_Literal n)"

subsection \<open>The interface \<open>Elem\<close>\<close>

text \<open>
  \<open>IsNil\<close> is a method: the program calls it only after the test \<open>elem == nil\<close> has
  failed, so it has no equation for the nil interface. \<open>is_nil\<close> is the whole test
  \<open>elem == nil || elem.IsNil()\<close>.
\<close>

fun IsNil :: "Elem \<Rightarrow> bool" where
  "IsNil (MentionP p) = (p = None)"
| "IsNil (TagP p) = (p = None)"
| "IsNil (SubjectP p) = (p = None)"
| "IsNil (TextP p) = (p = None)"
| "IsNil (LinkP p) = (p = None)"
| "IsNil (CodeP p) = (p = None)"
| "IsNil LineSeparator = False"

definition is_nil :: "Elem \<Rightarrow> bool" where
  "is_nil elem = (elem = nil_Elem \<or> IsNil elem)"

text \<open>
  \<open>Literal()\<close> of an element that is not nil. On the nil interface or a nil pointer the
  call panics, which \<open>Literal_call\<close> returns as \<open>None\<close>.
\<close>

fun Literal :: "heap \<Rightarrow> Elem \<Rightarrow> string" where
  "Literal h (MentionP (Some a)) = m_lit (mentionH h ! a)"
| "Literal h (TagP (Some a)) = t_lit (tagH h ! a)"
| "Literal h (SubjectP (Some n)) = Subject_Literal h n"
| "Literal h (TextP (Some n)) = x_lit n"
| "Literal h (LinkP (Some n)) = Link_Literal n"
| "Literal h (CodeP (Some n)) = Code_Literal n"
| "Literal h LineSeparator = lineSep"

definition Literal_call :: "heap \<Rightarrow> Elem \<Rightarrow> string option" where
  "Literal_call h elem = (if is_nil elem then None else Some (Literal h elem))"

text \<open>
  The branches of the type switches in \<open>Twt.Format\<close>, by verb. \<open>Mention\<close>, \<open>Tag\<close> and
  \<open>Subject\<close> have \<open>FormatHTML\<close>, \<open>FormatMarkdown\<close> and \<open>FormatText\<close>; \<open>Mention\<close> and \<open>Tag\<close>
  have \<open>FormatCompact\<close>; \<open>Code\<close> has \<open>FormatMarkdown\<close>; the line separator has
  \<open>FormatText\<close>; every other case is \<open>Literal()\<close>. A method called on a nil pointer reads
  a field of it and panics.
\<close>

fun FormatHTML_Elem :: "'tm Extern \<Rightarrow> Elem \<Rightarrow> heap \<Rightarrow> string option \<times> heap" where
  "FormatHTML_Elem ext (MentionP (Some a)) h = (Some (Mention_FormatHTML (mentionH h ! a)), h)"
| "FormatHTML_Elem ext (TagP (Some a)) h = (Some (Tag_FormatHTML (tagH h ! a)), h)"
| "FormatHTML_Elem ext (SubjectP (Some n)) h = (Some (Subject_FormatHTML h n), h)"
| "FormatHTML_Elem ext (CodeP (Some n)) h = (Some (Code_String n), h)"
| "FormatHTML_Elem ext LineSeparator h = (Some [CHR 0x0A], h)"
| "FormatHTML_Elem ext elem h = (Literal_call h elem, h)"

fun FormatText_Elem :: "'tm Extern \<Rightarrow> Elem \<Rightarrow> heap \<Rightarrow> string option \<times> heap" where
  "FormatText_Elem ext (MentionP (Some a)) h = (Some (Mention_FormatText (mentionH h ! a)), h)"
| "FormatText_Elem ext (TagP (Some a)) h = (Some (Tag_FormatText (tagH h ! a)), h)"
| "FormatText_Elem ext (SubjectP (Some n)) h = (Some (Subject_FormatText h n), h)"
| "FormatText_Elem ext LineSeparator h = (Some [CHR 0x0A], h)"
| "FormatText_Elem ext elem h = (Literal_call h elem, h)"

fun FormatMarkdown_Elem :: "'tm Extern \<Rightarrow> Elem \<Rightarrow> heap \<Rightarrow> string option \<times> heap" where
  "FormatMarkdown_Elem ext (MentionP (Some a)) h = (Some (Mention_FormatMarkdown (mentionH h ! a)), h)"
| "FormatMarkdown_Elem ext (TagP (Some a)) h = Tag_FormatMarkdown ext a h"
| "FormatMarkdown_Elem ext (SubjectP (Some n)) h = Subject_FormatMarkdown ext n h"
| "FormatMarkdown_Elem ext (CodeP (Some n)) h = (Some (Code_String n), h)"
| "FormatMarkdown_Elem ext LineSeparator h = (Some [CHR 0x0A], h)"
| "FormatMarkdown_Elem ext elem h = (Literal_call h elem, h)"

fun FormatCompact_Elem :: "'tm Extern \<Rightarrow> Elem \<Rightarrow> heap \<Rightarrow> string option \<times> heap" where
  "FormatCompact_Elem ext (MentionP (Some a)) h = (Some (Mention_FormatCompact (mentionH h ! a)), h)"
| "FormatCompact_Elem ext (TagP (Some a)) h = (Some (Tag_FormatCompact (tagH h ! a)), h)"
| "FormatCompact_Elem ext elem h = (Literal_call h elem, h)"

definition Format_Elem :: "'tm Extern \<Rightarrow> char \<Rightarrow> Elem \<Rightarrow> heap \<Rightarrow> string option \<times> heap" where
  "Format_Elem ext c elem h =
     (if c = CHR ''H'' then FormatHTML_Elem ext elem h
      else if c = CHR ''T'' then FormatText_Elem ext elem h
      else if c = CHR ''M'' then FormatMarkdown_Elem ext elem h
      else if c = CHR ''L'' then (Literal_call h elem, h)
      else if c = CHR ''C'' then FormatCompact_Elem ext elem h
      else (Literal_call h elem, h))"

text \<open>
  \<open>Clone()\<close> of an element. Called on the nil interface it panics (\<open>None\<close>). The methods of
  \<open>Mention\<close>, \<open>Subject\<close>, \<open>Text\<close>, \<open>Link\<close> and \<open>Code\<close> return the nil interface for a nil
  pointer; \<open>Tag.Clone\<close> returns the result of \<open>CloneTag\<close>, a \<open>*Tag\<close>, so a nil \<open>*Tag\<close> is
  cloned to a nil \<open>*Tag\<close>. A new \<open>Mention\<close> or \<open>Tag\<close> is allocated at the end of the store.
\<close>

definition new_Mention :: "Mention \<Rightarrow> heap \<Rightarrow> addr \<times> heap" where
  "new_Mention n h = (length (mentionH h), h\<lparr>mentionH := mentionH h @ [n]\<rparr>)"

definition new_Tag :: "Tag \<Rightarrow> heap \<Rightarrow> addr \<times> heap" where
  "new_Tag n h = (length (tagH h), h\<lparr>tagH := tagH h @ [n]\<rparr>)"

fun Clone :: "Elem \<Rightarrow> heap \<Rightarrow> Elem option \<times> heap" where
  "Clone nil_Elem h = (None, h)"
| "Clone (MentionP None) h = (Some nil_Elem, h)"
| "Clone (MentionP (Some a)) h =
     (case new_Mention (mentionH h ! a) h of (a', h') \<Rightarrow> (Some (MentionP (Some a')), h'))"
| "Clone (TagP None) h = (Some (TagP None), h)"
| "Clone (TagP (Some a)) h =
     (case new_Tag (tagH h ! a) h of (a', h') \<Rightarrow> (Some (TagP (Some a')), h'))"
| "Clone (SubjectP None) h = (Some nil_Elem, h)"
| "Clone (SubjectP (Some n)) h =
     (case s_tag n of
        None \<Rightarrow> (Some (SubjectP (Some \<lparr>s_subject = s_subject n, s_tag = None\<rparr>)), h)
      | Some a \<Rightarrow>
          (case new_Tag (tagH h ! a) h of
             (a', h') \<Rightarrow> (Some (SubjectP (Some \<lparr>s_subject = s_subject n, s_tag = Some a'\<rparr>)), h')))"
| "Clone (TextP None) h = (Some nil_Elem, h)"
| "Clone (TextP (Some n)) h = (Some (TextP (Some \<lparr>x_lit = x_lit n\<rparr>)), h)"
| "Clone (LinkP None) h = (Some nil_Elem, h)"
| "Clone (LinkP (Some n)) h =
     (Some (LinkP (Some \<lparr>linkType = linkType n, l_text = l_text n, l_target = l_target n\<rparr>)), h)"
| "Clone (CodeP None) h = (Some nil_Elem, h)"
| "Clone (CodeP (Some n)) h = (Some (CodeP (Some \<lparr>codeType = codeType n, k_lit = k_lit n\<rparr>)), h)"
| "Clone LineSeparator h = (Some LineSeparator, h)"

text \<open>\<open>NewTag\<close> renders the literal of the new tag with \<open>FormatText\<close>.\<close>

definition NewTag :: "string \<Rightarrow> string \<Rightarrow> heap \<Rightarrow> addr \<times> heap" where
  "NewTag tag target h =
     (let m = \<lparr>t_lit = [], t_tag = tag, t_target = target, t_url = None, t_err = None\<rparr>
      in new_Tag (m\<lparr>t_lit := Tag_FormatText m\<rparr>) h)"

definition NewSubjectTag :: "string \<Rightarrow> string \<Rightarrow> heap \<Rightarrow> Subject \<times> heap" where
  "NewSubjectTag tag target h =
     (case NewTag tag target h of (a, h') \<Rightarrow> (\<lparr>s_subject = [], s_tag = Some a\<rparr>, h'))"

section \<open>The Twt\<close>

record 'tm DateTime =
  dt_lit :: string
  dt_time :: 'tm

definition NewDateTime :: "'tm Extern \<Rightarrow> 'tm \<Rightarrow> string \<Rightarrow> 'tm DateTime" where
  "NewDateTime ext t lit =
     \<lparr>dt_lit = (if lit = [] then Format_RFC3339 ext t else lit), dt_time = t\<rparr>"

definition DateTime_Literal :: "'tm DateTime option \<Rightarrow> string" where
  "DateTime_Literal n = (case n of None \<Rightarrow> [] | Some d \<Rightarrow> dt_lit d)"

definition DateTime_DateTime :: "'tm Extern \<Rightarrow> 'tm DateTime option \<Rightarrow> 'tm" where
  "DateTime_DateTime ext n = (case n of None \<Rightarrow> zero_Time ext | Some d \<Rightarrow> dt_time d)"

text \<open>
  The struct \<open>Twt\<close>. The slices \<open>mentions\<close> and \<open>tags\<close> hold pointers into the store;
  \<open>links\<close> and \<open>subject\<close> point to structs that are never written.
\<close>

record 'tm Twt =
  dt :: "'tm DateTime option"
  msg :: "Elem list"
  mentions :: "addr list"
  tags :: "addr list"
  links :: "Link list"
  hash :: string
  subject :: "Subject option"
  twter :: Twter
  pos :: int

definition append_Twt :: "'tm Twt \<Rightarrow> Elem \<Rightarrow> 'tm Twt" where
  "append_Twt twt elem =
     (if is_nil elem then twt
      else
        (let twt1 = twt\<lparr>msg := msg twt @ [elem]\<rparr>;
             twt2 = (case elem of
                       SubjectP (Some s) \<Rightarrow>
                         (let t = (if subject twt1 = None then twt1\<lparr>subject := Some s\<rparr> else twt1)
                          in (case s_tag s of
                                Some a \<Rightarrow> t\<lparr>tags := tags t @ [a]\<rparr>
                              | None \<Rightarrow> t))
                     | _ \<Rightarrow> twt1);
             twt3 = (case elem of TagP (Some a) \<Rightarrow> twt2\<lparr>tags := tags twt2 @ [a]\<rparr> | _ \<Rightarrow> twt2);
             twt4 = (case elem of
                       MentionP (Some a) \<Rightarrow> twt3\<lparr>mentions := mentions twt3 @ [a]\<rparr>
                     | _ \<Rightarrow> twt3);
             twt5 = (case elem of LinkP (Some l) \<Rightarrow> twt4\<lparr>links := links twt4 @ [l]\<rparr> | _ \<Rightarrow> twt4)
         in twt5))"

definition NewTwt :: "Twter \<Rightarrow> 'tm DateTime option \<Rightarrow> Elem list \<Rightarrow> 'tm Twt" where
  "NewTwt tw d elems =
     foldl append_Twt
       \<lparr>dt = d, msg = [], mentions = [], tags = [], links = [], hash = [], subject = None,
        twter = tw, pos = 0\<rparr>
       elems"

definition Elems :: "'tm Twt \<Rightarrow> Elem list" where
  "Elems twt = msg twt"

definition Tags :: "'tm Twt \<Rightarrow> addr list" where
  "Tags twt = tags twt"

definition Created :: "'tm Extern \<Rightarrow> 'tm Twt \<Rightarrow> 'tm" where
  "Created ext twt = DateTime_DateTime ext (dt twt)"

definition LiteralText :: "heap \<Rightarrow> 'tm Twt \<Rightarrow> string" where
  "LiteralText h twt = foldl (\<lambda>b s. if is_nil s then b else b @ Literal h s) [] (msg twt)"

definition Literal_Twt :: "heap \<Rightarrow> 'tm Twt \<Rightarrow> string" where
  "Literal_Twt h twt = DateTime_Literal (dt twt) @ [CHR 0x09] @ LiteralText h twt @ [CHR 0x0A]"

text \<open>
  \<open>CloneTwt\<close>: the loop \<open>msg[i] = twt.msg[i].Clone()\<close>, then \<open>NewTwt\<close> on the clones with
  the same \<open>twter\<close> and the same \<open>dt\<close> pointer.
\<close>

fun Clone_msg :: "Elem list \<Rightarrow> heap \<Rightarrow> Elem list option \<times> heap" where
  "Clone_msg [] h = (Some [], h)"
| "Clone_msg (e # es) h =
     (case Clone e h of
        (None, h') \<Rightarrow> (None, h')
      | (Some e', h') \<Rightarrow>
          (case Clone_msg es h' of
             (None, h'') \<Rightarrow> (None, h'')
           | (Some es', h'') \<Rightarrow> (Some (e' # es'), h'')))"

definition CloneTwt :: "'tm Twt \<Rightarrow> heap \<Rightarrow> 'tm Twt option \<times> heap" where
  "CloneTwt twt h =
     (case Clone_msg (msg twt) h of
        (None, h') \<Rightarrow> (None, h')
      | (Some ms, h') \<Rightarrow> (Some (NewTwt (twter twt) (dt twt) ms), h'))"

text \<open>
  \<open>Twt.Format(state, c)\<close>: the text written for the verb \<open>c\<close>, with the flag \<open>+\<close> as
  \<open>flag\<close>. \<open>None\<close> is a panic inside the method (which \<open>fmt.Sprintf\<close> recovers from and
  reports in place of the rendering).
\<close>

fun Format_msg :: "'tm Extern \<Rightarrow> char \<Rightarrow> Elem list \<Rightarrow> heap \<Rightarrow> string option \<times> heap" where
  "Format_msg ext c [] h = (Some [], h)"
| "Format_msg ext c (e # es) h =
     (case Format_Elem ext c e h of
        (None, h') \<Rightarrow> (None, h')
      | (Some s, h') \<Rightarrow>
          (case Format_msg ext c es h' of
             (None, h'') \<Rightarrow> (None, h'')
           | (Some r, h'') \<Rightarrow> (Some (s @ r), h'')))"

definition Format :: "'tm Extern \<Rightarrow> char \<Rightarrow> bool \<Rightarrow> 'tm Twt \<Rightarrow> heap \<Rightarrow> string option \<times> heap" where
  "Format ext c flag twt h =
     (case Format_msg ext c (msg twt) h of
        (None, h') \<Rightarrow> (None, h')
      | (Some s, h') \<Rightarrow>
          (Some ((if flag then DateTime_Literal (dt twt) @ [CHR 0x09] else []) @ s), h'))"

text \<open>
  \<open>ExpandLinks\<close>. The flag returned is \<open>False\<close> when the call panics: a method call on a
  nil \<open>opts\<close>, or a nil \<open>*Twter\<close> from the lookup. The assignments \<open>twt.tags[i] = tag\<close>
  and \<open>twt.mentions[i] = m\<close> store the pointer just read from the same slot.
\<close>

definition ExpandLinks_tag :: "FmtOpts option \<Rightarrow> addr \<Rightarrow> heap \<Rightarrow> bool \<times> heap" where
  "ExpandLinks_tag opts a h =
     (let tag = tagH h ! a in
      if t_target tag = [] then
        (case opts of
           None \<Rightarrow> (False, h)
         | Some fo \<Rightarrow>
             (True, h\<lparr>tagH := (tagH h)[a := tag\<lparr>t_target := URLForTag fo (t_tag tag)\<rparr>]\<rparr>))
      else (True, h))"

fun ExpandLinks_tags :: "FmtOpts option \<Rightarrow> addr list \<Rightarrow> heap \<Rightarrow> bool \<times> heap" where
  "ExpandLinks_tags opts [] h = (True, h)"
| "ExpandLinks_tags opts (a # rest) h =
     (case ExpandLinks_tag opts a h of
        (False, h') \<Rightarrow> (False, h')
      | (True, h') \<Rightarrow> ExpandLinks_tags opts rest h')"

definition ExpandLinks_mention :: "FeedLookup option \<Rightarrow> addr \<Rightarrow> heap \<Rightarrow> bool \<times> heap" where
  "ExpandLinks_mention lookup a h =
     (let m = mentionH h ! a in
      case lookup of
        None \<Rightarrow> (True, h)
      | Some f \<Rightarrow>
          (if m_target m = [] then
             (case f (m_name m) of
                None \<Rightarrow> (False, h)
              | Some tw \<Rightarrow>
                  (let m1 = m\<lparr>m_name := Nick tw\<rparr>;
                       sp = SplitN (Nick tw) (CHR ''@'') 2;
                       m2 = (if length sp = 2 then m1\<lparr>m_name := sp ! 0, m_domain := sp ! 1\<rparr>
                             else m1);
                       m3 = m2\<lparr>m_target := URL tw\<rparr>
                   in (True, h\<lparr>mentionH := (mentionH h)[a := m3]\<rparr>)))
           else (True, h)))"

fun ExpandLinks_mentions :: "FeedLookup option \<Rightarrow> addr list \<Rightarrow> heap \<Rightarrow> bool \<times> heap" where
  "ExpandLinks_mentions lookup [] h = (True, h)"
| "ExpandLinks_mentions lookup (a # rest) h =
     (case ExpandLinks_mention lookup a h of
        (False, h') \<Rightarrow> (False, h')
      | (True, h') \<Rightarrow> ExpandLinks_mentions lookup rest h')"

definition ExpandLinks :: "FmtOpts option \<Rightarrow> FeedLookup option \<Rightarrow> 'tm Twt \<Rightarrow> heap \<Rightarrow> bool \<times> heap" where
  "ExpandLinks opts lookup twt h =
     (case ExpandLinks_tags opts (tags twt) h of
        (False, h') \<Rightarrow> (False, h')
      | (True, h') \<Rightarrow> ExpandLinks_mentions lookup (mentions twt) h')"

text \<open>\<open>FormatText\<close>: the pass over the tags and the mentions of the clone, then the rendering.\<close>

type_synonym TwtTextFormat = int

definition MarkdownFmt :: TwtTextFormat where "MarkdownFmt = 0"
definition HTMLFmt :: TwtTextFormat where "HTMLFmt = 1"
definition TextFmt :: TwtTextFormat where "TextFmt = 2"

definition FormatText_tag :: "TwtTextFormat \<Rightarrow> addr \<Rightarrow> heap \<Rightarrow> heap" where
  "FormatText_tag mode a h =
     (if mode = TextFmt then h\<lparr>tagH := (tagH h)[a := (tagH h ! a)\<lparr>t_target := []\<rparr>]\<rparr> else h)"

fun FormatText_tags :: "TwtTextFormat \<Rightarrow> addr list \<Rightarrow> heap \<Rightarrow> heap" where
  "FormatText_tags mode [] h = h"
| "FormatText_tags mode (a # rest) h = FormatText_tags mode rest (FormatText_tag mode a h)"

definition FormatText_mention :: "'tm Extern \<Rightarrow> TwtTextFormat \<Rightarrow> FmtOpts \<Rightarrow> addr \<Rightarrow> heap \<Rightarrow> bool \<times> heap" where
  "FormatText_mention ext mode opts a h =
     (let m = mentionH h ! a in
      if mode = TextFmt then
        (if m_domain m = [] \<and> IsLocalURL opts (m_target m) \<and> HasSuffix (m_target m) ''/twtxt.txt''
         then
           (case LocalURL opts of
              None \<Rightarrow> (False, h)
            | Some u \<Rightarrow>
                (True, h\<lparr>mentionH := (mentionH h)[a := m\<lparr>m_domain := u_Hostname u, m_target := []\<rparr>]\<rparr>))
         else (True, h\<lparr>mentionH := (mentionH h)[a := m\<lparr>m_target := []\<rparr>]\<rparr>))
      else if mode = MarkdownFmt \<or> mode = HTMLFmt then
        (if IsLocalURL opts (m_target m) \<and> HasSuffix (m_target m) ''/twtxt.txt''
         then (True, h\<lparr>mentionH := (mentionH h)[a := m\<lparr>m_target := UserURL opts (m_target m)\<rparr>]\<rparr>)
         else
           (let m1 = (if m_domain m = [] then
                        (case url_Parse ext (m_target m) of
                           Inr u \<Rightarrow> m\<lparr>m_domain := u_Hostname u\<rparr>
                         | Inl e \<Rightarrow> m)
                      else m)
            in (True, h\<lparr>mentionH :=
                  (mentionH h)[a := m1\<lparr>m_target := ExternalURL opts (m_name m1) (m_target m1)\<rparr>]\<rparr>)))
      else (True, h))"

fun FormatText_mentions :: "'tm Extern \<Rightarrow> TwtTextFormat \<Rightarrow> FmtOpts \<Rightarrow> addr list \<Rightarrow> heap \<Rightarrow> bool \<times> heap" where
  "FormatText_mentions ext mode opts [] h = (True, h)"
| "FormatText_mentions ext mode opts (a # rest) h =
     (case FormatText_mention ext mode opts a h of
        (False, h') \<Rightarrow> (False, h')
      | (True, h') \<Rightarrow> FormatText_mentions ext mode opts rest h')"

definition FormatText_verb :: "TwtTextFormat \<Rightarrow> char" where
  "FormatText_verb mode =
     (if mode = HTMLFmt then CHR ''H''
      else if mode = TextFmt then CHR ''T''
      else if mode = MarkdownFmt then CHR ''M''
      else CHR ''L'')"

definition FormatText :: "'tm Extern \<Rightarrow> TwtTextFormat \<Rightarrow> FmtOpts option \<Rightarrow> 'tm Twt \<Rightarrow> heap \<Rightarrow> string option \<times> heap" where
  "FormatText ext mode opts twt h =
     (case CloneTwt twt h of
        (None, h1) \<Rightarrow> (None, h1)
      | (Some c, h1) \<Rightarrow>
          (case (case opts of
                   None \<Rightarrow> (True, h1)
                 | Some fo \<Rightarrow> FormatText_mentions ext mode fo (mentions c) (FormatText_tags mode (tags c) h1))
           of
             (False, h2) \<Rightarrow> (None, h2)
           | (True, h2) \<Rightarrow> Format ext (FormatText_verb mode) False c h2))"

subsection \<open>The hash\<close>

text \<open>
  \<open>base32.StdEncoding.WithPadding(base32.NoPadding).EncodeToString\<close>, as RFC 4648 defines
  it: the bits of the input, most significant first, in groups of five, the last group
  filled with zero bits, each group a character of the alphabet, and no padding
  characters. \<open>strings.ToLower\<close> is written out for the ASCII letters, which is all the
  alphabet has.
\<close>

definition byte_bits :: "8 word \<Rightarrow> bool list" where
  "byte_bits b = [bit b 7, bit b 6, bit b 5, bit b 4, bit b 3, bit b 2, bit b 1, bit b 0]"

fun quintets :: "bool list \<Rightarrow> bool list list" where
  "quintets (a # b # c # d # e # bs) = [a, b, c, d, e] # quintets bs"
| "quintets [] = []"
| "quintets bs = [take 5 (bs @ replicate 4 False)]"

definition quintet_val :: "bool list \<Rightarrow> nat" where
  "quintet_val q = foldl (\<lambda>n b. 2 * n + (if b then 1 else 0)) 0 q"

definition encodeStd :: string where
  "encodeStd = ''ABCDEFGHIJKLMNOPQRSTUVWXYZ234567''"

definition base32_EncodeToString :: "8 word list \<Rightarrow> string" where
  "base32_EncodeToString src =
     map (\<lambda>q. encodeStd ! quintet_val q) (quintets (concat (map byte_bits src)))"

definition ToLower_char :: "char \<Rightarrow> char" where
  "ToLower_char c =
     (if 65 \<le> (of_char c :: nat) \<and> (of_char c :: nat) \<le> 90 then char_of (of_char c + 32 :: nat)
      else c)"

definition ToLower :: "string \<Rightarrow> string" where
  "ToLower s = map ToLower_char s"

definition TwtHashLength :: nat where
  "TwtHashLength = 7"

text \<open>
  \<open>Hash\<close> and \<open>Subject\<close> have value receivers: their assignments to \<open>twt.hash\<close> and
  \<open>twt.subject\<close> write to the copy of the struct the call received, so the caller's Twt
  is not changed and the functions return their result only. \<open>Subject\<close> allocates the
  tag of the subject it makes.
\<close>

definition Hash :: "'tm Extern \<Rightarrow> heap \<Rightarrow> 'tm Twt \<Rightarrow> string" where
  "Hash ext h twt =
     (if hash twt \<noteq> [] then hash twt
      else
        (let payload = URL (twter twt) @ [CHR 0x0A] @ Format_RFC3339 ext (Created ext twt)
                       @ [CHR 0x0A] @ LiteralText h twt;
             sum = blake2b_Sum256 ext payload;
             hs = ToLower (base32_EncodeToString (Rep_sum256 sum))
         in drop (length hs - TwtHashLength) hs))"

definition Subject_Twt :: "'tm Extern \<Rightarrow> 'tm Twt \<Rightarrow> heap \<Rightarrow> Subject \<times> heap" where
  "Subject_Twt ext twt h =
     (case subject twt of
        None \<Rightarrow> NewSubjectTag (Hash ext h twt) [] h
      | Some s \<Rightarrow> (s, h))"

subsection \<open>Decoding\<close>

text \<open>
  \<open>DecodeJSON\<close> calls \<open>json.Unmarshal\<close> of the Go library and \<open>ParseText\<close>, whose lexer and
  parser are in other files of the package: both are parameters. \<open>unmarshal\<close> returns the
  decoded struct \<open>enc\<close> or the error; \<open>parseText\<close> returns the pair \<open>(lis, err)\<close> and
  allocates the elements it makes. The result \<open>(types.NilTwt, err)\<close> is \<open>Inl err\<close>.
\<close>

record 'tm enc =
  enc_Twter :: Twter
  enc_Text :: string
  enc_Created :: 'tm
  enc_Hash :: string

definition DecodeJSON ::
  "'tm Extern \<Rightarrow> (string \<Rightarrow> error + 'tm enc) \<Rightarrow> (string \<Rightarrow> heap \<Rightarrow> (Elem list \<times> error option) \<times> heap)
   \<Rightarrow> string \<Rightarrow> heap \<Rightarrow> (error + 'tm Twt) \<times> heap" where
  "DecodeJSON ext unmarshal parseText bytes h =
     (case unmarshal bytes of
        Inl err \<Rightarrow> (Inl err, h)
      | Inr e \<Rightarrow>
          (let d = NewDateTime ext (enc_Created e) [] in
           case parseText (enc_Text e) h of
             ((elems, Some err), h') \<Rightarrow> (Inl err, h')
           | ((elems, None), h') \<Rightarrow>
               (Inr ((NewTwt (enc_Twter e) (Some d) elems)\<lparr>hash := enc_Hash e\<rparr>), h')))"

text \<open>
  \<open>GobDecode\<close> writes to the Twt it is called on and returns an error or nil; the model
  returns the error and the Twt after the call. \<open>ParseLine\<close> is in another file of the
  package and is a parameter: it returns an error, or a value of the interface
  \<open>types.Twt\<close>, which is a \<open>*Twt\<close> of this package (\<open>LexTwt\<close>) or not (\<open>OtherTwt\<close>).
\<close>

datatype 'tm types_Twt = LexTwt "'tm Twt" | OtherTwt

definition GobDecode ::
  "(string \<Rightarrow> Twter \<Rightarrow> heap \<Rightarrow> (error + 'tm types_Twt) \<times> heap) \<Rightarrow> string \<Rightarrow> 'tm Twt \<Rightarrow> heap
   \<Rightarrow> (error option \<times> 'tm Twt) \<times> heap" where
  "GobDecode parseLine bytes twt h =
     (let sp = SplitN bytes (CHR 0x09) 5 in
      if length sp \<noteq> 5 then ((Some (''unable to decode twt: '' @ bytes @ '' ''), twt), h)
      else
        (let tw = Twter_zero\<lparr>Nick := sp ! 0, URL := sp ! 1, Avatar := sp ! 2\<rparr>;
             twt1 = twt\<lparr>hash := sp ! 3\<rparr>
         in case parseLine (sp ! 4) tw h of
              (Inl err, h') \<Rightarrow> ((Some err, twt1), h')
            | (Inr (LexTwt t), h') \<Rightarrow>
                ((None, twt1\<lparr>dt := dt t, msg := msg t, mentions := mentions t, tags := tags t,
                              links := links t, subject := subject t, twter := twter t\<rparr>), h')
            | (Inr OtherTwt, h') \<Rightarrow> ((None, twt1), h')))"

section \<open>Notions the statements use\<close>

text \<open>
  The tag pointers and the mention pointers an element contributes to the indices of a Twt,
  and the first subject of a sequence of elements.
\<close>

fun embedded_tags :: "Elem \<Rightarrow> addr list" where
  "embedded_tags (SubjectP (Some s)) = (case s_tag s of Some a \<Rightarrow> [a] | None \<Rightarrow> [])"
| "embedded_tags (TagP (Some a)) = [a]"
| "embedded_tags elem = []"

fun mention_ptrs :: "Elem \<Rightarrow> addr list" where
  "mention_ptrs (MentionP (Some a)) = [a]"
| "mention_ptrs elem = []"

fun link_ptrs :: "Elem \<Rightarrow> Link list" where
  "link_ptrs (LinkP (Some l)) = [l]"
| "link_ptrs elem = []"

fun first_Subject :: "Elem list \<Rightarrow> Subject option" where
  "first_Subject [] = None"
| "first_Subject (SubjectP (Some s) # es) = Some s"
| "first_Subject (e # es) = first_Subject es"

text \<open>
  A pointer is allocated when it is an index of the store: every pointer a Go program
  holds is. \<open>allocated M T elem\<close> says so of the pointers of \<open>elem\<close>, for a store with \<open>M\<close>
  mentions and \<open>T\<close> tags; \<open>fresh M T elem\<close> says that they are not among the first \<open>M\<close>
  mentions and \<open>T\<close> tags.
\<close>

definition allocated :: "nat \<Rightarrow> nat \<Rightarrow> Elem \<Rightarrow> bool" where
  "allocated M T elem = (list_all (\<lambda>a. a < M) (mention_ptrs elem) \<and> list_all (\<lambda>a. a < T) (embedded_tags elem))"

definition fresh :: "nat \<Rightarrow> nat \<Rightarrow> Elem \<Rightarrow> bool" where
  "fresh M T elem = (list_all (\<lambda>a. M \<le> a) (mention_ptrs elem) \<and> list_all (\<lambda>a. T \<le> a) (embedded_tags elem))"

definition in_heap :: "heap \<Rightarrow> Elem \<Rightarrow> bool" where
  "in_heap h elem = allocated (length (mentionH h)) (length (tagH h)) elem"

text \<open>
  \<open>preserved h h'\<close>: every struct of the store \<open>h\<close> is in \<open>h'\<close> at the same address with the
  same fields.
\<close>

definition preserved :: "heap \<Rightarrow> heap \<Rightarrow> bool" where
  "preserved h h' =
     (take (length (mentionH h)) (mentionH h') = mentionH h
      \<and> take (length (tagH h)) (tagH h') = tagH h)"

section \<open>Concrete values for the examples\<close>

text \<open>
  The examples run the model on concrete inputs. They need values for the parameters: in
  \<open>ex_Extern\<close> a time is the text of its RFC 3339 form, every URL fails to parse, and
  the digest is a fixed array of 32 bytes. No example depends on the digest being the one
  of BLAKE2b.
\<close>

definition ex_Extern :: "string Extern" where
  "ex_Extern =
     \<lparr>url_Parse = (\<lambda>s. Inl ''parse error''),
      blake2b_Sum256 = (\<lambda>s. Abs_sum256 (replicate 32 0)),
      Format_RFC3339 = (\<lambda>t. t),
      zero_Time = ''0001-01-01T00:00:00Z''\<rparr>"

definition ex_heap :: heap where
  "ex_heap = \<lparr>mentionH = [], tagH = []\<rparr>"

definition ex_Twter :: Twter where
  "ex_Twter = \<lparr>Nick = ''alice'', URL = ''https://a.example/twtxt.txt'', Avatar = [], Tagline = []\<rparr>"

definition ex_DateTime :: "string DateTime option" where
  "ex_DateTime = Some \<lparr>dt_lit = ''2020-01-01T00:00:00Z'', dt_time = ''2020-01-01T00:00:00Z''\<rparr>"

definition ex_Text :: Elem where
  "ex_Text = TextP (Some \<lparr>x_lit = ''hello''\<rparr>)"

text \<open>A decoder and a parser for the examples: every payload decodes to the same struct, and
  a text parses to one \<open>Text\<close> element.\<close>

definition ex_unmarshal :: "string \<Rightarrow> error + string enc" where
  "ex_unmarshal bytes =
     Inr \<lparr>enc_Twter = ex_Twter, enc_Text = ''hello'', enc_Created = ''2020-01-01T00:00:00Z'',
          enc_Hash = ''abcdefg''\<rparr>"

definition ex_parseText :: "string \<Rightarrow> heap \<Rightarrow> (Elem list \<times> error option) \<times> heap" where
  "ex_parseText s h = (([TextP (Some \<lparr>x_lit = s\<rparr>)], None), h)"

section \<open>Metadata lookup\<close>

lemma GetAll_loop_filter:
  "GetAll_loop lis p nlis = nlis @ filter (\<lambda>c. c_key c \<noteq> [] \<and> HasPrefix (c_key c) p) lis"
  by (induction lis arbitrary: nlis) auto

lemma Followers_loop_map:
  "Followers_loop flds flis nlis =
     nlis @ map (\<lambda>c. Twter_zero\<lparr>Nick := flds (c_value c) ! 0, URL := flds (c_value c) ! 1\<rparr>)
              (filter (\<lambda>c. 2 \<le> length (flds (c_value c))) flis)"
  by (induction flis arbitrary: nlis) (auto simp: Let_def)

text \<open>
  Claim C1, the lookup with a negative index. The claim has \<open>GetN(k, -1)\<close> return the
  last occurrence whenever at least one entry matches, and \<open>GetN(k, n)\<close> for \<open>n < 0\<close>
  return the match at index \<open>m + n\<close> whenever that index is in range. The guard after the
  scan is \<open>-n < len(idx)\<close>, so the index \<open>m + n = 0\<close> is refused: with one match,
  \<open>GetN(k, -1)\<close> finds nothing; with two matches \<open>GetN(k, -1)\<close> returns the last one and
  \<open>GetN(k, -2)\<close> finds nothing, although index 0 is in range.
\<close>

theorem GetN_minus_one_single_match:
  "GetN [\<lparr>c_comment = ''# a = 1'', c_key = ''a'', c_value = ''1''\<rparr>] ''a'' (- 1) = Inr None
   \<and> GetN [\<lparr>c_comment = ''# a = 1'', c_key = ''a'', c_value = ''1''\<rparr>,
           \<lparr>c_comment = ''# a = 2'', c_key = ''a'', c_value = ''2''\<rparr>] ''a'' (- 1)
       = Inr (Some \<lparr>c_comment = ''# a = 2'', c_key = ''a'', c_value = ''2''\<rparr>)
   \<and> GetN [\<lparr>c_comment = ''# a = 1'', c_key = ''a'', c_value = ''1''\<rparr>,
           \<lparr>c_comment = ''# a = 2'', c_key = ''a'', c_value = ''2''\<rparr>] ''a'' (- 2) = Inr None"
  by (simp add: GetN_def GetN_step_def wrap64_def)

section \<open>Followers\<close>

text \<open>
  Claim C4, as the code has it: \<open>Followers\<close> returns, in insertion order, one
  \<open>Twter {Nick, URL}\<close> per entry whose key starts with \<open>follow\<close> and whose value splits
  on white space into at least two fields, made of the first two fields; it skips the
  entries whose value has fewer than two fields. The header entry with key \<open>follow\<close> and
  value \<open>bob https://bob.example/twtxt.txt\<close> yields that one follower.
\<close>

theorem Followers_first_two_fields:
  "Followers flds lis =
     map (\<lambda>c. Twter_zero\<lparr>Nick := flds (c_value c) ! 0, URL := flds (c_value c) ! 1\<rparr>)
       (filter (\<lambda>c. HasPrefix (c_key c) ''follow'' \<and> 2 \<le> length (flds (c_value c))) lis)
   \<and> Followers Fields_ascii
        [\<lparr>c_comment = ''# follow = bob https://bob.example/twtxt.txt'', c_key = ''follow'',
          c_value = ''bob https://bob.example/twtxt.txt''\<rparr>]
       = [\<lparr>Nick = ''bob'', URL = ''https://bob.example/twtxt.txt'', Avatar = [], Tagline = []\<rparr>]"
proof -
  have "filter (\<lambda>c. c_key c \<noteq> [] \<and> HasPrefix (c_key c) ''follow'') lis
        = filter (\<lambda>c. HasPrefix (c_key c) ''follow'') lis"
    by (rule filter_cong) (auto simp: HasPrefix_def)
  then have "Followers flds lis =
     map (\<lambda>c. Twter_zero\<lparr>Nick := flds (c_value c) ! 0, URL := flds (c_value c) ! 1\<rparr>)
       (filter (\<lambda>c. HasPrefix (c_key c) ''follow'' \<and> 2 \<le> length (flds (c_value c))) lis)"
    by (simp add: Followers_def GetAll_def GetAll_loop_filter Followers_loop_map conj_commute)
  moreover have "Followers Fields_ascii
        [\<lparr>c_comment = ''# follow = bob https://bob.example/twtxt.txt'', c_key = ''follow'',
          c_value = ''bob https://bob.example/twtxt.txt''\<rparr>]
       = [\<lparr>Nick = ''bob'', URL = ''https://bob.example/twtxt.txt'', Avatar = [], Tagline = []\<rparr>]"
    by (simp add: Followers_def GetAll_def HasPrefix_def Fields_ascii_def asciiSpace_def
        Twter_zero_def)
  ultimately show ?thesis by blast
qed

text \<open>
  An entry whose value has three fields is not skipped: its first two fields make a
  follower.
\<close>

theorem Followers_three_fields_counterexample:
  "length (Fields_ascii ''bob https://bob.example/twtxt.txt extra'') = 3
   \<and> Followers Fields_ascii
        [\<lparr>c_comment = ''# follow = bob https://bob.example/twtxt.txt extra'', c_key = ''follow'',
          c_value = ''bob https://bob.example/twtxt.txt extra''\<rparr>]
       = [\<lparr>Nick = ''bob'', URL = ''https://bob.example/twtxt.txt'', Avatar = [], Tagline = []\<rparr>]"
  by (simp add: Followers_def GetAll_def HasPrefix_def Fields_ascii_def asciiSpace_def
      Twter_zero_def)

section \<open>Building a Twt\<close>

lemma is_nil_simps [simp]:
  "is_nil nil_Elem" "is_nil (MentionP p) = (p = None)" "is_nil (TagP p) = (p = None)"
  "is_nil (SubjectP q) = (q = None)" "is_nil (TextP r) = (r = None)"
  "is_nil (LinkP l) = (l = None)" "is_nil (CodeP k) = (k = None)" "\<not> is_nil LineSeparator"
  by (simp_all add: is_nil_def)

lemma append_Twt_msg: "msg (append_Twt t e) = msg t @ (if is_nil e then [] else [e])"
  by (cases e) (auto simp: append_Twt_def Let_def split: option.splits)

lemma append_Twt_tags: "tags (append_Twt t e) = tags t @ embedded_tags e"
  by (cases e) (auto simp: append_Twt_def Let_def split: option.splits)

lemma append_Twt_mentions: "mentions (append_Twt t e) = mentions t @ mention_ptrs e"
  by (cases e) (auto simp: append_Twt_def Let_def split: option.splits)

lemma append_Twt_links: "links (append_Twt t e) = links t @ link_ptrs e"
  by (cases e) (auto simp: append_Twt_def Let_def split: option.splits)

lemma append_Twt_subject:
  "subject (append_Twt t e) = (case subject t of Some s \<Rightarrow> Some s | None \<Rightarrow> first_Subject [e])"
  by (cases e) (auto simp: append_Twt_def Let_def split: option.splits)

lemma append_Twt_rest:
  "dt (append_Twt t e) = dt t" "hash (append_Twt t e) = hash t"
  "twter (append_Twt t e) = twter t" "pos (append_Twt t e) = pos t"
  by (cases e; auto simp: append_Twt_def Let_def split: option.splits)+

lemma first_Subject_append:
  "first_Subject (xs @ ys) = (case first_Subject xs of Some s \<Rightarrow> Some s | None \<Rightarrow> first_Subject ys)"
  by (induction xs rule: first_Subject.induct) auto

lemma foldl_append_msg:
  "msg (foldl append_Twt t es) = msg t @ filter (\<lambda>e. \<not> is_nil e) es"
  by (induction es arbitrary: t) (auto simp: append_Twt_msg)

lemma foldl_append_tags:
  "tags (foldl append_Twt t es) = tags t @ concat (map embedded_tags es)"
  by (induction es arbitrary: t) (auto simp: append_Twt_tags)

lemma foldl_append_mentions:
  "mentions (foldl append_Twt t es) = mentions t @ concat (map mention_ptrs es)"
  by (induction es arbitrary: t) (auto simp: append_Twt_mentions)

lemma foldl_append_links:
  "links (foldl append_Twt t es) = links t @ concat (map link_ptrs es)"
  by (induction es arbitrary: t) (auto simp: append_Twt_links)

lemma foldl_append_subject:
  "subject (foldl append_Twt t es) = (case subject t of Some s \<Rightarrow> Some s | None \<Rightarrow> first_Subject es)"
proof (induction es arbitrary: t)
  case Nil
  then show ?case by (simp split: option.splits)
next
  case (Cons e es)
  show ?case
    using first_Subject_append [of "[e]" es]
    by (simp add: Cons.IH append_Twt_subject split: option.splits)
qed

lemma foldl_append_rest:
  "dt (foldl append_Twt t es) = dt t" "hash (foldl append_Twt t es) = hash t"
  "twter (foldl append_Twt t es) = twter t" "pos (foldl append_Twt t es) = pos t"
  by (induction es arbitrary: t; simp add: append_Twt_rest)+

lemma NewTwt_fields:
  "msg (NewTwt tw d es) = filter (\<lambda>e. \<not> is_nil e) es"
  "tags (NewTwt tw d es) = concat (map embedded_tags es)"
  "mentions (NewTwt tw d es) = concat (map mention_ptrs es)"
  "links (NewTwt tw d es) = concat (map link_ptrs es)"
  "subject (NewTwt tw d es) = first_Subject es"
  "dt (NewTwt tw d es) = d" "hash (NewTwt tw d es) = []"
  "twter (NewTwt tw d es) = tw" "pos (NewTwt tw d es) = 0"
  by (simp_all add: NewTwt_def foldl_append_msg foldl_append_tags foldl_append_mentions
      foldl_append_links foldl_append_subject foldl_append_rest)

lemma LiteralText_foldl:
  "foldl (\<lambda>b s. if is_nil s then b else b @ Literal h s) acc es
     = acc @ concat (map (Literal h) (filter (\<lambda>e. \<not> is_nil e) es))"
  by (induction es arbitrary: acc) auto

lemma LiteralText_concat:
  "LiteralText h twt = concat (map (Literal h) (filter (\<lambda>e. \<not> is_nil e) (msg twt)))"
  by (simp add: LiteralText_def LiteralText_foldl)

section \<open>The hash of a Twt\<close>

lemma length_byte_bits [simp]: "length (byte_bits b) = 8"
  by (simp add: byte_bits_def)

lemma length_quintets: "length (quintets bs) = (length bs + 4) div 5"
  by (induction bs rule: quintets.induct) auto

lemma quintets_length5: "q \<in> set (quintets bs) \<Longrightarrow> length q = 5"
  by (induction bs rule: quintets.induct) auto

lemma quintet_val_foldl:
  "foldl (\<lambda>n b. 2 * n + (if b then 1 else 0)) (k::nat) q < 2 ^ length q * (k + 1)"
proof (induction q arbitrary: k)
  case Nil
  then show ?case by simp
next
  case (Cons b q)
  have "foldl (\<lambda>n b. 2 * n + (if b then 1 else 0)) (2 * k + (if b then 1 else 0)) q
        < 2 ^ length q * ((2 * k + (if b then 1 else 0)) + 1)"
    by (rule Cons.IH)
  also have "\<dots> \<le> 2 ^ length q * (2 * (k + 1))"
    by (intro mult_le_mono2) auto
  finally show ?case by (simp add: mult.assoc)
qed

lemma quintet_val_less: "length q = 5 \<Longrightarrow> quintet_val q < 32"
  using quintet_val_foldl [of 0 q] by (simp add: quintet_val_def)

lemma length_concat_byte_bits: "length (concat (map byte_bits src)) = 8 * length src"
  by (induction src) auto

lemma length_base32: "length (base32_EncodeToString src) = (8 * length src + 4) div 5"
  by (simp add: base32_EncodeToString_def length_quintets length_concat_byte_bits)

lemma ToLower_encodeStd: "ToLower encodeStd = ''abcdefghijklmnopqrstuvwxyz234567''"
  by code_simp

lemma length_encodeStd: "length encodeStd = 32"
  by (simp add: encodeStd_def)

lemma set_ToLower_base32:
  "set (ToLower (base32_EncodeToString src)) \<subseteq> set ''abcdefghijklmnopqrstuvwxyz234567''"
proof
  fix c assume "c \<in> set (ToLower (base32_EncodeToString src))"
  then obtain q where q: "q \<in> set (quintets (concat (map byte_bits src)))"
    and c: "c = ToLower_char (encodeStd ! quintet_val q)"
    by (auto simp: ToLower_def base32_EncodeToString_def)
  have "quintet_val q < length encodeStd"
    using quintet_val_less [OF quintets_length5 [OF q]] by (simp add: length_encodeStd)
  then have "ToLower encodeStd ! quintet_val q \<in> set (ToLower encodeStd)"
    by (simp add: ToLower_def)
  moreover have "ToLower encodeStd ! quintet_val q = c"
    using \<open>quintet_val q < length encodeStd\<close> c by (simp add: ToLower_def)
  ultimately show "c \<in> set ''abcdefghijklmnopqrstuvwxyz234567''"
    by (simp only: ToLower_encodeStd)
qed

lemma length_Rep_sum256 [simp]: "length (Rep_sum256 x) = 32"
  using Rep_sum256 [of x] by simp

lemma length_ToLower [simp]: "length (ToLower s) = length s"
  by (simp add: ToLower_def)

lemma length_hash_text: "length (ToLower (base32_EncodeToString (Rep_sum256 x))) = 52"
  by (simp add: length_base32)

lemma Hash_carried: "hash twt \<noteq> [] \<Longrightarrow> Hash ext h twt = hash twt"
  by (simp add: Hash_def)

lemma Hash_computed:
  "hash twt = [] \<Longrightarrow>
   Hash ext h twt =
     drop 45 (ToLower (base32_EncodeToString (Rep_sum256 (blake2b_Sum256 ext
       (URL (twter twt) @ [CHR 0x0A] @ Format_RFC3339 ext (Created ext twt) @ [CHR 0x0A]
        @ LiteralText h twt)))))"
  by (simp add: Hash_def Let_def length_base32 TwtHashLength_def)

lemma length_Hash_computed: "hash twt = [] \<Longrightarrow> length (Hash ext h twt) = 7"
  by (simp add: Hash_computed length_base32)

lemma set_Hash_computed:
  "hash twt = [] \<Longrightarrow> set (Hash ext h twt) \<subseteq> set ''abcdefghijklmnopqrstuvwxyz234567''"
  using set_ToLower_base32 set_drop_subset by (fastforce simp: Hash_computed)

lemma Hash_nonempty: "Hash ext h twt \<noteq> []"
proof (cases "hash twt = []")
  case True
  then have "length (Hash ext h twt) = 7" by (rule length_Hash_computed)
  then show ?thesis by auto
next
  case False
  then show ?thesis by (simp add: Hash_carried)
qed

section \<open>Nil elements are dropped\<close>

lemma not_is_nil_iff: "(\<not> is_nil e) = (e \<noteq> nil_Elem \<and> \<not> IsNil e)"
  by (simp add: is_nil_def)

lemma list_all_not_nil_filter: "list_all (\<lambda>e. e \<noteq> nil_Elem \<and> \<not> IsNil e) (filter (\<lambda>e. \<not> is_nil e) es)"
  by (simp add: list_all_iff not_is_nil_iff)

lemma LiteralText_NewTwt:
  "LiteralText h ((NewTwt tw d es)\<lparr>hash := hs\<rparr>) = concat (map (Literal h) (filter (\<lambda>e. \<not> is_nil e) es))"
  by (simp add: LiteralText_concat NewTwt_fields)

lemma CloneTwt_Some:
  "CloneTwt twt h = (Some c, h') \<Longrightarrow> \<exists>ms. c = NewTwt (twter twt) (dt twt) ms"
  by (auto simp: CloneTwt_def split: prod.splits option.splits)

lemma DecodeJSON_Inr:
  "DecodeJSON ext unmarshal parseText bytes h = (Inr t, h') \<Longrightarrow>
   \<exists>e elems. unmarshal bytes = Inr e \<and> parseText (enc_Text e) h = ((elems, None), h')
     \<and> t = (NewTwt (enc_Twter e) (Some (NewDateTime ext (enc_Created e) [])) elems)\<lparr>hash := enc_Hash e\<rparr>"
  by (auto simp: DecodeJSON_def Let_def split: sum.splits prod.splits option.splits)

text \<open>
  Claim C9. \<open>NewTwt\<close> keeps exactly the elements that are neither the nil interface nor a
  nil pointer, in their order: every element of \<open>Elems()\<close> is non-nil with \<open>IsNil()\<close>
  false, and \<open>LiteralText()\<close> is the concatenation of the literals of the elements kept.
  The same holds of the Twt that \<open>CloneTwt\<close> or \<open>DecodeJSON\<close> returns, which \<open>NewTwt\<close> built.
\<close>

theorem NewTwt_drops_nil_elements:
  "Elems (NewTwt tw d elems) = filter (\<lambda>e. \<not> is_nil e) elems
   \<and> list_all (\<lambda>e. e \<noteq> nil_Elem \<and> \<not> IsNil e) (Elems (NewTwt tw d elems))
   \<and> LiteralText h (NewTwt tw d elems) = concat (map (Literal h) (Elems (NewTwt tw d elems)))
   \<and> (CloneTwt twt h1 = (Some c, h2) \<longrightarrow>
        list_all (\<lambda>e. e \<noteq> nil_Elem \<and> \<not> IsNil e) (Elems c)
        \<and> LiteralText h c = concat (map (Literal h) (Elems c)))
   \<and> (DecodeJSON ext unmarshal parseText bytes h1 = (Inr t, h2) \<longrightarrow>
        list_all (\<lambda>e. e \<noteq> nil_Elem \<and> \<not> IsNil e) (Elems t)
        \<and> LiteralText h t = concat (map (Literal h) (Elems t)))"
proof (intro conjI impI)
  show "Elems (NewTwt tw d elems) = filter (\<lambda>e. \<not> is_nil e) elems"
    by (simp add: Elems_def NewTwt_fields)
  show "list_all (\<lambda>e. e \<noteq> nil_Elem \<and> \<not> IsNil e) (Elems (NewTwt tw d elems))"
    by (simp add: Elems_def NewTwt_fields list_all_not_nil_filter)
  show "LiteralText h (NewTwt tw d elems) = concat (map (Literal h) (Elems (NewTwt tw d elems)))"
    by (simp add: Elems_def LiteralText_concat NewTwt_fields)
next
  assume "CloneTwt twt h1 = (Some c, h2)"
  then obtain ms where c: "c = NewTwt (twter twt) (dt twt) ms"
    using CloneTwt_Some by blast
  show "list_all (\<lambda>e. e \<noteq> nil_Elem \<and> \<not> IsNil e) (Elems c)"
    by (simp add: c Elems_def NewTwt_fields list_all_not_nil_filter)
  show "LiteralText h c = concat (map (Literal h) (Elems c))"
    by (simp add: c Elems_def LiteralText_concat NewTwt_fields)
next
  assume "DecodeJSON ext unmarshal parseText bytes h1 = (Inr t, h2)"
  from DecodeJSON_Inr [OF this]
  obtain tw' d' es hs where t: "t = (NewTwt tw' d' es)\<lparr>hash := hs\<rparr>"
    by blast
  show "list_all (\<lambda>e. e \<noteq> nil_Elem \<and> \<not> IsNil e) (Elems t)"
    by (simp add: t Elems_def NewTwt_fields list_all_not_nil_filter)
  show "LiteralText h t = concat (map (Literal h) (Elems t))"
    by (simp add: t Elems_def LiteralText_concat NewTwt_fields)
qed

lemma ex_CloneTwt_eval:
  "CloneTwt (NewTwt ex_Twter ex_DateTime [nil_Elem, ex_Text, MentionP None, LineSeparator]) ex_heap
     = (Some (NewTwt ex_Twter ex_DateTime [ex_Text, LineSeparator]), ex_heap)"
  by (simp add: NewTwt_def append_Twt_def CloneTwt_def ex_Text_def)

lemma ex_DecodeJSON_eval:
  "DecodeJSON ex_Extern ex_unmarshal ex_parseText [] ex_heap
     = (Inr ((NewTwt ex_Twter (Some (NewDateTime ex_Extern ''2020-01-01T00:00:00Z'' [])) [ex_Text])\<lparr>hash := ''abcdefg''\<rparr>), ex_heap)"
  by (simp add: DecodeJSON_def ex_unmarshal_def ex_parseText_def ex_Text_def ex_Twter_def)

theorem NewTwt_drops_nil_elements_witness:
  "CloneTwt (NewTwt ex_Twter ex_DateTime [nil_Elem, ex_Text, MentionP None, LineSeparator]) ex_heap
     = (Some (NewTwt ex_Twter ex_DateTime [ex_Text, LineSeparator]), ex_heap)
   \<and> DecodeJSON ex_Extern ex_unmarshal ex_parseText [] ex_heap
     = (Inr ((NewTwt ex_Twter (Some (NewDateTime ex_Extern ''2020-01-01T00:00:00Z'' [])) [ex_Text])\<lparr>hash := ''abcdefg''\<rparr>), ex_heap)
   \<and> Elems (NewTwt ex_Twter ex_DateTime [nil_Elem, ex_Text, MentionP None, LineSeparator]) = [ex_Text, LineSeparator]
   \<and> list_all (\<lambda>e. e \<noteq> nil_Elem \<and> \<not> IsNil e) (Elems (NewTwt ex_Twter ex_DateTime [ex_Text, LineSeparator]))
   \<and> list_all (\<lambda>e. e \<noteq> nil_Elem \<and> \<not> IsNil e)
        (Elems ((NewTwt ex_Twter (Some (NewDateTime ex_Extern ''2020-01-01T00:00:00Z'' [])) [ex_Text])\<lparr>hash := ''abcdefg''\<rparr>))"
  using NewTwt_drops_nil_elements [of ex_Twter ex_DateTime "[nil_Elem, ex_Text, MentionP None, LineSeparator]"
      ex_heap "NewTwt ex_Twter ex_DateTime [nil_Elem, ex_Text, MentionP None, LineSeparator]" ex_heap
      "NewTwt ex_Twter ex_DateTime [ex_Text, LineSeparator]" ex_heap
      ex_Extern ex_unmarshal ex_parseText "[]"
      "(NewTwt ex_Twter (Some (NewDateTime ex_Extern ''2020-01-01T00:00:00Z'' [])) [ex_Text])\<lparr>hash := ''abcdefg''\<rparr>"]
    ex_CloneTwt_eval ex_DecodeJSON_eval
  by (simp add: ex_Text_def)

section \<open>Subjects, tags and hashes\<close>

lemma Subject_Twt_Some: "subject twt = Some s \<Longrightarrow> Subject_Twt ext twt h = (s, h)"
  by (simp add: Subject_Twt_def)

text \<open>
  Claim C10. Appending a \<open>Subject\<close> appends its embedded tag, if it has one, to the tags
  index, and makes it the subject of the Twt only when the Twt has none yet. So the tags
  index of a Twt that \<open>NewTwt\<close> built holds, in the order of the elements, the top-level
  tags and the embedded tag of every subject, the later subjects too; the subject of the
  Twt is the first \<open>Subject\<close> element, and \<open>Subject()\<close> returns it.
\<close>

theorem Subject_tags_enter_index:
  "tags (append_Twt twt (SubjectP (Some s))) = tags twt @ (case s_tag s of Some a \<Rightarrow> [a] | None \<Rightarrow> [])
   \<and> subject (append_Twt twt (SubjectP (Some s)))
       = (case subject twt of None \<Rightarrow> Some s | Some s0 \<Rightarrow> Some s0)
   \<and> Tags (NewTwt tw d elems) = concat (map embedded_tags elems)
   \<and> subject (NewTwt tw d elems) = first_Subject elems
   \<and> (first_Subject elems = Some s1 \<longrightarrow> Subject_Twt ext (NewTwt tw d elems) h = (s1, h))"
  by (simp add: append_Twt_tags append_Twt_subject Tags_def NewTwt_fields Subject_Twt_Some
      split: option.splits)

theorem Subject_tags_enter_index_witness:
  "first_Subject [SubjectP (Some \<lparr>s_subject = [], s_tag = Some 0\<rparr>), TagP (Some 1), ex_Text,
                  SubjectP (Some \<lparr>s_subject = [], s_tag = Some 2\<rparr>)]
     = Some \<lparr>s_subject = [], s_tag = Some 0\<rparr>
   \<and> Subject_Twt ex_Extern
        (NewTwt ex_Twter ex_DateTime
           [SubjectP (Some \<lparr>s_subject = [], s_tag = Some 0\<rparr>), TagP (Some 1), ex_Text,
            SubjectP (Some \<lparr>s_subject = [], s_tag = Some 2\<rparr>)]) ex_heap
       = (\<lparr>s_subject = [], s_tag = Some 0\<rparr>, ex_heap)
   \<and> Tags (NewTwt ex_Twter ex_DateTime
           [SubjectP (Some \<lparr>s_subject = [], s_tag = Some 0\<rparr>), TagP (Some 1), ex_Text,
            SubjectP (Some \<lparr>s_subject = [], s_tag = Some 2\<rparr>)]) = [0, 1, 2]"
  using Subject_tags_enter_index [of "NewTwt ex_Twter ex_DateTime []" "\<lparr>s_subject = [], s_tag = Some 0\<rparr>"
      ex_Twter ex_DateTime
      "[SubjectP (Some \<lparr>s_subject = [], s_tag = Some 0\<rparr>), TagP (Some 1), ex_Text,
        SubjectP (Some \<lparr>s_subject = [], s_tag = Some 2\<rparr>)]"
      "\<lparr>s_subject = [], s_tag = Some 0\<rparr>" ex_Extern ex_heap]
  by (simp add: ex_Text_def)

text \<open>
  Claim C3. For a Twt whose \<open>hash\<close> field is empty, \<open>Hash()\<close> is the last 7 of the 52
  characters of the lower-case, unpadded base32 text of the digest of
  \<open>twter.URL + "\n" + RFC3339(created) + "\n" +\<close> the concatenated literals of the
  elements; it has 7 characters, all of them lower-case letters or digits of the base32
  alphabet.
\<close>

theorem Hash_of_fresh_Twt:
  assumes "hash twt = []"
  shows "Hash ext h twt =
           drop (52 - 7) (ToLower (base32_EncodeToString (Rep_sum256 (blake2b_Sum256 ext
             (URL (twter twt) @ [CHR 0x0A] @ Format_RFC3339 ext (Created ext twt) @ [CHR 0x0A]
              @ concat (map (Literal h) (filter (\<lambda>e. \<not> is_nil e) (msg twt))))))))
         \<and> length (ToLower (base32_EncodeToString (Rep_sum256 (blake2b_Sum256 ext
             (URL (twter twt) @ [CHR 0x0A] @ Format_RFC3339 ext (Created ext twt) @ [CHR 0x0A]
              @ concat (map (Literal h) (filter (\<lambda>e. \<not> is_nil e) (msg twt)))))))) = 52
         \<and> length (Hash ext h twt) = 7
         \<and> set (Hash ext h twt) \<subseteq> set ''abcdefghijklmnopqrstuvwxyz234567''"
proof -
  have 1: "Hash ext h twt =
           drop (52 - 7) (ToLower (base32_EncodeToString (Rep_sum256 (blake2b_Sum256 ext
             (URL (twter twt) @ [CHR 0x0A] @ Format_RFC3339 ext (Created ext twt) @ [CHR 0x0A]
              @ concat (map (Literal h) (filter (\<lambda>e. \<not> is_nil e) (msg twt))))))))"
    using assms by (simp add: Hash_computed LiteralText_concat)
  have 2: "length (ToLower (base32_EncodeToString (Rep_sum256 (blake2b_Sum256 ext
             (URL (twter twt) @ [CHR 0x0A] @ Format_RFC3339 ext (Created ext twt) @ [CHR 0x0A]
              @ concat (map (Literal h) (filter (\<lambda>e. \<not> is_nil e) (msg twt)))))))) = 52"
    by (rule length_hash_text)
  have 3: "length (Hash ext h twt) = 7"
    using assms by (rule length_Hash_computed)
  have 4: "set (Hash ext h twt) \<subseteq> set ''abcdefghijklmnopqrstuvwxyz234567''"
    using assms by (rule set_Hash_computed)
  show ?thesis
    by (rule conjI [OF 1 conjI [OF 2 conjI [OF 3 4]]])
qed

theorem Hash_of_fresh_Twt_witness:
  "hash (NewTwt ex_Twter ex_DateTime [ex_Text]) = []
   \<and> length (Hash ex_Extern ex_heap (NewTwt ex_Twter ex_DateTime [ex_Text])) = 7
   \<and> set (Hash ex_Extern ex_heap (NewTwt ex_Twter ex_DateTime [ex_Text]))
       \<subseteq> set ''abcdefghijklmnopqrstuvwxyz234567''"
proof -
  have fresh: "hash (NewTwt ex_Twter ex_DateTime [ex_Text]) = []"
    by (simp add: NewTwt_fields)
  from Hash_of_fresh_Twt [OF fresh, of ex_Extern ex_heap] fresh show ?thesis
    by blast
qed

lemma NewSubjectTag_eval:
  "NewSubjectTag tag [] h =
     (\<lparr>s_subject = [], s_tag = Some (length (tagH h))\<rparr>,
      h\<lparr>tagH := tagH h @ [\<lparr>t_lit = ''#'' @ tag, t_tag = tag, t_target = [], t_url = None, t_err = None\<rparr>]\<rparr>)"
  by (simp add: NewSubjectTag_def NewTag_def new_Tag_def Let_def Tag_FormatText_def Tag_FormatCompact_def)

text \<open>
  Claim C2, as the code has it. For a Twt with no \<open>Subject\<close> element, \<open>Subject()\<close> makes a
  subject with a new tag whose text is the hash of the Twt and whose target is empty;
  \<open>Subject().Text()\<close> is the literal of that tag, the character \<open>#\<close> followed by the
  hash: 8 characters when the hash is computed, not the 7 of the hash alone.
\<close>

theorem Subject_fallback_text:
  assumes "first_Subject elems = None" and "twt = (NewTwt tw d elems)\<lparr>hash := hs\<rparr>"
  shows "case Subject_Twt ext twt h of
           (s, h') \<Rightarrow>
             s_subject s = [] \<and> s_tag s = Some (length (tagH h))
             \<and> t_tag (tagH h' ! length (tagH h)) = Hash ext h twt
             \<and> t_target (tagH h' ! length (tagH h)) = []
             \<and> Subject_Text h' s = ''#'' @ Hash ext h twt
             \<and> (hs = [] \<longrightarrow> length (Subject_Text h' s) = 8)"
proof -
  have "subject twt = None"
    using assms by (simp add: NewTwt_fields)
  moreover have "hs = [] \<Longrightarrow> length (Hash ext h twt) = 7"
    using assms by (simp add: length_Hash_computed NewTwt_fields)
  ultimately show ?thesis
    by (simp add: Subject_Twt_def NewSubjectTag_eval Subject_Text_def)
qed

theorem Subject_fallback_text_witness:
  "first_Subject [ex_Text] = None
   \<and> (case Subject_Twt ex_Extern ((NewTwt ex_Twter ex_DateTime [ex_Text])\<lparr>hash := []\<rparr>) ex_heap of
        (s, h') \<Rightarrow>
          Subject_Text h' s
            = ''#'' @ Hash ex_Extern ex_heap ((NewTwt ex_Twter ex_DateTime [ex_Text])\<lparr>hash := []\<rparr>)
          \<and> length (Subject_Text h' s) = 8)"
proof -
  have none: "first_Subject [ex_Text] = None"
    by (simp add: ex_Text_def)
  from Subject_fallback_text [OF none refl, where hs = "[]" and tw = ex_Twter and d = ex_DateTime
      and ext = ex_Extern and h = ex_heap] none
  show ?thesis
    by (auto split: prod.splits)
qed

text \<open>
  A Twt with no subject and the hash \<open>abcdefg\<close>: the text of its subject is \<open>#abcdefg\<close>.
\<close>

theorem Subject_fallback_text_counterexample:
  "Hash ex_Extern ex_heap ((NewTwt ex_Twter ex_DateTime [ex_Text])\<lparr>hash := ''abcdefg''\<rparr>) = ''abcdefg''
   \<and> Subject_Text
        (snd (Subject_Twt ex_Extern ((NewTwt ex_Twter ex_DateTime [ex_Text])\<lparr>hash := ''abcdefg''\<rparr>) ex_heap))
        (fst (Subject_Twt ex_Extern ((NewTwt ex_Twter ex_DateTime [ex_Text])\<lparr>hash := ''abcdefg''\<rparr>) ex_heap))
       = ''#abcdefg''"
  by (simp add: Hash_def Subject_Twt_def NewTwt_def append_Twt_def ex_Text_def NewSubjectTag_eval
      Subject_Text_def ex_heap_def)

text \<open>
  Claim C6. When the payload decodes to a struct with a hash (a non-empty \<open>Hash\<close> field:
  the decoded struct has the empty string for a payload without one) and its text parses
  without error, \<open>DecodeJSON\<close> returns a Twt whose \<open>hash\<close> field is that value, and
  \<open>Hash()\<close> returns it unchanged, whatever the store and the parameters of the digest are.
\<close>

theorem DecodeJSON_keeps_hash:
  assumes "unmarshal bytes = Inr e" and "enc_Hash e \<noteq> []"
    and "parseText (enc_Text e) h = ((elems, None), h')"
  shows "\<exists>twt. DecodeJSON ext unmarshal parseText bytes h = (Inr twt, h')
           \<and> hash twt = enc_Hash e \<and> (\<forall>h2. Hash ext h2 twt = enc_Hash e)"
  using assms by (simp add: DecodeJSON_def Let_def Hash_def)

theorem DecodeJSON_keeps_hash_witness:
  "ex_unmarshal [] = Inr \<lparr>enc_Twter = ex_Twter, enc_Text = ''hello'', enc_Created = ''2020-01-01T00:00:00Z'',
          enc_Hash = ''abcdefg''\<rparr>
   \<and> ''abcdefg'' \<noteq> []
   \<and> ex_parseText ''hello'' ex_heap = (([ex_Text], None), ex_heap)
   \<and> (\<exists>twt. DecodeJSON ex_Extern ex_unmarshal ex_parseText [] ex_heap = (Inr twt, ex_heap)
           \<and> hash twt = ''abcdefg'' \<and> (\<forall>h2. Hash ex_Extern h2 twt = ''abcdefg''))"
  using DecodeJSON_keeps_hash [where unmarshal = ex_unmarshal and bytes = "[]"
      and e = "\<lparr>enc_Twter = ex_Twter, enc_Text = ''hello'', enc_Created = ''2020-01-01T00:00:00Z'', enc_Hash = ''abcdefg''\<rparr>"
      and parseText = ex_parseText and h = ex_heap and elems = "[ex_Text]" and h' = ex_heap
      and ext = ex_Extern]
  by (simp add: ex_unmarshal_def ex_parseText_def ex_Text_def)

end
